theory Spec2Isabelle
  imports Main "HOL-Library.Sublist" "HOL-Library.Multiset"
    "HOL-Library.Char_ord" "HOL-Library.List_Lexorder"
begin

section \<open>Strings\<close>

text \<open>
  The components classify free-text labels with \<^verbatim>\<open>toLowerCase\<close> and
  \<^verbatim>\<open>includes\<close>. A string is modelled as a \<^typ>\<open>string\<close> holding its
  UTF-8 form: a character of ASCII is one byte below 128, and every other character
  is a sequence of bytes from 128 up that no other character's bytes contain.

  \<^verbatim>\<open>toLowerCase\<close> maps the letters \<^verbatim>\<open>A\<close> to \<^verbatim>\<open>Z\<close> to
  \<^verbatim>\<open>a\<close> to \<^verbatim>\<open>z\<close>, the KELVIN SIGN U+212A (bytes E2 84 AA) to
  \<^verbatim>\<open>k\<close>, and the capital I with dot above U+0130 (bytes C4 B0) to
  \<^verbatim>\<open>i\<close> followed by the combining dot above U+0307 (bytes CC 87). These two
  are the only characters outside ASCII whose lower-case form has an ASCII character.
  Every other character outside ASCII is lower-cased by the host into characters
  outside ASCII and stands here as it is: the ASCII characters of the result, and the
  places where other characters separate them, are those of the host's result, so a
  word of ASCII letters occurs in the one exactly when it occurs in the other.
\<close>

definition toLowerChar :: "char \<Rightarrow> char" where
  "toLowerChar c =
     (case map_of (zip ''ABCDEFGHIJKLMNOPQRSTUVWXYZ'' ''abcdefghijklmnopqrstuvwxyz'') c of
        Some l \<Rightarrow> l
      | None \<Rightarrow> c)"

definition kelvinSign :: string where
  "kelvinSign = [CHR 0xE2, CHR 0x84, CHR 0xAA]"

definition capitalIWithDot :: string where
  "capitalIWithDot = [CHR 0xC4, CHR 0xB0]"

definition combiningDotAbove :: string where
  "combiningDotAbove = [CHR 0xCC, CHR 0x87]"

fun startsWith :: "string \<Rightarrow> string \<Rightarrow> bool" where
  "startsWith s [] = True"
| "startsWith [] (p # ps) = False"
| "startsWith (c # cs) (p # ps) = (c = p \<and> startsWith cs ps)"

text \<open>
  The lower-case form of the first character of a non-empty string, and the number
  of bytes that character takes.
\<close>

definition lowerFirst :: "string \<Rightarrow> string" where
  "lowerFirst s =
     (if startsWith s kelvinSign then ''k''
      else if startsWith s capitalIWithDot then CHR ''i'' # combiningDotAbove
      else [toLowerChar (hd s)])"

definition firstWidth :: "string \<Rightarrow> nat" where
  "firstWidth s =
     (if startsWith s kelvinSign then 3
      else if startsWith s capitalIWithDot then 2
      else 1)"

fun toLowerCase :: "string \<Rightarrow> string" where
  "toLowerCase [] = []"
| "toLowerCase (c # cs) =
     lowerFirst (c # cs) @ toLowerCase (drop (firstWidth (c # cs) - 1) cs)"

text \<open>\<^verbatim>\<open>s.includes(sub)\<close>: \<open>sub\<close> occurs in \<open>s\<close> at some position.\<close>

fun includes_str :: "string \<Rightarrow> string \<Rightarrow> bool" where
  "includes_str [] sub = (sub = [])"
| "includes_str (c # cs) sub = (startsWith (c # cs) sub \<or> includes_str cs sub)"


section \<open>Severity classification (Dashboard, SafetyResponsePanel)\<close>

text \<open>\<^verbatim>\<open>getRiskColor\<close> of Dashboard.tsx.\<close>

definition getRiskColor :: "string \<Rightarrow> string" where
  "getRiskColor level =
     (let lowerLevel = toLowerCase level in
      if includes_str lowerLevel ''high'' \<or> includes_str lowerLevel ''critical''
      then ''border-red-500 bg-red-500/10 text-red-400''
      else if includes_str lowerLevel ''medium'' \<or> includes_str lowerLevel ''moderate''
      then ''border-orange-500 bg-orange-500/10 text-orange-400''
      else ''border-green-500 bg-green-500/10 text-green-400'')"

text \<open>\<^verbatim>\<open>getRiskBadgeColor\<close> of Dashboard.tsx.\<close>

definition getRiskBadgeColor :: "string \<Rightarrow> string" where
  "getRiskBadgeColor level =
     (let lowerLevel = toLowerCase level in
      if includes_str lowerLevel ''high'' \<or> includes_str lowerLevel ''critical''
      then ''bg-red-500/20 text-red-400 border-red-500/30''
      else if includes_str lowerLevel ''medium'' \<or> includes_str lowerLevel ''moderate''
      then ''bg-orange-500/20 text-orange-400 border-orange-500/30''
      else ''bg-green-500/20 text-green-400 border-green-500/30'')"

text \<open>
  \<^verbatim>\<open>getSeverityColor\<close> of the SafetyResponsePanel; the source reads the
  \<^verbatim>\<open>severity\<close> property of the component, here the argument.
\<close>

definition getSeverityColor :: "string \<Rightarrow> string" where
  "getSeverityColor severity =
     (let lowerSeverity = toLowerCase severity in
      if includes_str lowerSeverity ''high'' \<or> includes_str lowerSeverity ''critical''
      then ''border-red-500 bg-red-500/5''
      else if includes_str lowerSeverity ''medium'' \<or> includes_str lowerSeverity ''moderate''
      then ''border-orange-500 bg-orange-500/5''
      else ''border-yellow-500 bg-yellow-500/5'')"

text \<open>
  The classifier as the specification words it: a display category decided by
  substring containment in the lower-cased text. Containment is the library's
  \<^const>\<open>sublist\<close>, \<open>sublist xs ys \<longleftrightarrow> (\<exists>ps ss. ys = ps @ xs @ ss)\<close>.
\<close>

datatype category = CatHigh | CatMedium | CatLow

definition severityCategory_spec :: "string \<Rightarrow> category" where
  "severityCategory_spec text =
     (if sublist ''high'' (toLowerCase text) \<or> sublist ''critical'' (toLowerCase text)
      then CatHigh
      else if sublist ''medium'' (toLowerCase text) \<or> sublist ''moderate'' (toLowerCase text)
      then CatMedium
      else CatLow)"

text \<open>The class strings the three source functions attach to each category.\<close>

fun riskColorOf :: "category \<Rightarrow> string" where
  "riskColorOf CatHigh = ''border-red-500 bg-red-500/10 text-red-400''"
| "riskColorOf CatMedium = ''border-orange-500 bg-orange-500/10 text-orange-400''"
| "riskColorOf CatLow = ''border-green-500 bg-green-500/10 text-green-400''"

fun riskBadgeColorOf :: "category \<Rightarrow> string" where
  "riskBadgeColorOf CatHigh = ''bg-red-500/20 text-red-400 border-red-500/30''"
| "riskBadgeColorOf CatMedium = ''bg-orange-500/20 text-orange-400 border-orange-500/30''"
| "riskBadgeColorOf CatLow = ''bg-green-500/20 text-green-400 border-green-500/30''"

fun panelColorOf :: "category \<Rightarrow> string" where
  "panelColorOf CatHigh = ''border-red-500 bg-red-500/5''"
| "panelColorOf CatMedium = ''border-orange-500 bg-orange-500/5''"
| "panelColorOf CatLow = ''border-yellow-500 bg-yellow-500/5''"


section \<open>Recommended actions (SafetyResponsePanel)\<close>

definition fireActions :: "string list" where
  "fireActions =
     [''Isolate affected module immediately'',
      ''Activate automatic fire suppression systems'',
      ''Alert all crew members via intercom'',
      ''Evacuate personnel from adjacent modules'',
      ''Seal ventilation to prevent spread'',
      ''Monitor oxygen levels in nearby areas'']"

definition smokeActions :: "string list" where
  "smokeActions =
     [''Activate ventilation systems in affected area'',
      ''Alert crew members in vicinity'',
      ''Identify source of smoke emission'',
      ''Prepare fire suppression equipment'',
      ''Monitor air quality sensors'',
      ''Restrict access to affected zone'']"

definition electricalActions :: "string list" where
  "electricalActions =
     [''Immediately cut power to affected circuit'',
      ''Evacuate personnel from danger zone'',
      ''Verify backup power systems are operational'',
      ''Deploy insulated equipment for inspection'',
      ''Monitor for secondary hazards'',
      ''Notify engineering team for assessment'']"

definition gasActions :: "string list" where
  "gasActions =
     [''Seal affected compartment immediately'',
      ''Activate emergency ventilation protocols'',
      ''Evacuate all personnel from area'',
      ''Deploy atmospheric sensors'',
      ''Use breathing apparatus for inspections'',
      ''Locate and isolate leak source'']"

definition overheatActions :: "string list" where
  "overheatActions =
     [''Reduce power consumption in affected area'',
      ''Activate auxiliary cooling systems'',
      ''Monitor temperature trends continuously'',
      ''Check thermal protection systems'',
      ''Prepare for equipment shutdown if needed'',
      ''Document temperature readings'']"

definition genericActions :: "string list" where
  "genericActions =
     [''Assess the situation thoroughly'',
      ''Alert relevant crew members'',
      ''Follow standard safety protocols'',
      ''Document all observations'',
      ''Monitor system status closely'']"

text \<open>\<^verbatim>\<open>getSafetyActions\<close>: the chain of early returns, in the source's order.\<close>

definition getSafetyActions :: "string \<Rightarrow> string list" where
  "getSafetyActions type =
     (let lowerType = toLowerCase type in
      if includes_str lowerType ''fire'' then fireActions
      else if includes_str lowerType ''smoke'' then smokeActions
      else if includes_str lowerType ''electrical'' \<or> includes_str lowerType ''spark''
      then electricalActions
      else if includes_str lowerType ''gas'' \<or> includes_str lowerType ''leak''
      then gasActions
      else if includes_str lowerType ''overheat'' \<or> includes_str lowerType ''temperature''
      then overheatActions
      else genericActions)"

text \<open>
  The specification's reading: an ordered decision table of keyword categories,
  evaluated top to bottom, the first category with a keyword contained in the
  lower-cased hazard type wins, and the generic checklist is the fallback.
\<close>

definition keywordTable_spec :: "(string list \<times> string list) list" where
  "keywordTable_spec =
     [([''fire''], fireActions),
      ([''smoke''], smokeActions),
      ([''electrical'', ''spark''], electricalActions),
      ([''gas'', ''leak''], gasActions),
      ([''overheat'', ''temperature''], overheatActions)]"

fun firstMatch_spec :: "(string list \<times> string list) list \<Rightarrow> string \<Rightarrow> string list" where
  "firstMatch_spec [] lower = genericActions"
| "firstMatch_spec ((keywords, checklist) # rest) lower =
     (if list_ex (\<lambda>kw. sublist kw lower) keywords then checklist
      else firstMatch_spec rest lower)"

definition recommendedActions_spec :: "string \<Rightarrow> string list" where
  "recommendedActions_spec hazardType = firstMatch_spec keywordTable_spec (toLowerCase hazardType)"


section \<open>Sort selection (AlertHistory)\<close>

datatype SortField = Timestamp | Severity | Type

datatype SortOrder = Asc | Desc

text \<open>The two \<^verbatim>\<open>useState\<close> cells of the component.\<close>

record SortState =
  sortField :: SortField
  sortOrder :: SortOrder

definition initialSortState :: SortState where
  "initialSortState = \<lparr>sortField = Timestamp, sortOrder = Desc\<rparr>"

text \<open>
  \<^verbatim>\<open>handleSort\<close> runs in a click handler on the state of the current render;
  the state it sets is the state of the next render, which the next click reads.
\<close>

definition handleSort :: "SortState \<Rightarrow> SortField \<Rightarrow> SortState" where
  "handleSort s field =
     (if sortField s = field
      then s\<lparr>sortOrder := (if sortOrder s = Asc then Desc else Asc)\<rparr>
      else s\<lparr>sortField := field, sortOrder := Desc\<rparr>)"


section \<open>Data acquisition (Dashboard, HazardAlerts)\<close>

text \<open>
  A timestamp is the ISO-8601 string that \<^verbatim>\<open>toISOString\<close> writes. It is
  represented by the time value it denotes, in milliseconds since the epoch:
  \<^verbatim>\<open>new Date(t).toISOString()\<close> is the timestamp \<open>t\<close>, two timestamps are the same
  string exactly when their time values are equal, and
  \<^verbatim>\<open>new Date(s).getTime()\<close> reads the time value back.
\<close>

type_synonym isoTime = int

text \<open>
  What \<^verbatim>\<open>await axios.get(...)\<close> throws: an axios error with its optional
  \<^verbatim>\<open>code\<close> (\<^verbatim>\<open>ERR_NETWORK\<close>, \<^verbatim>\<open>ECONNABORTED\<close> for the timeout,
  \<^verbatim>\<open>ERR_BAD_RESPONSE\<close>, ...) or any other value.
\<close>

datatype thrown = AxiosError "string option" | OtherError

fun isAxiosError :: "thrown \<Rightarrow> bool" where
  "isAxiosError (AxiosError c) = True"
| "isAxiosError OtherError = False"

fun code :: "thrown \<Rightarrow> string option" where
  "code (AxiosError c) = c"
| "code OtherError = None"

record HazardDetection =
  hz_type :: string
  risk_level :: string
  hz_location :: string
  hz_timestamp :: isoTime
  confidence :: "int option"

record DashboardState =
  hazard :: "HazardDetection option"
  loading :: bool
  error :: "string option"

definition initialDashboardState :: DashboardState where
  "initialDashboardState = \<lparr>hazard = None, loading = True, error = None\<rparr>"

definition fallbackHazard :: "int \<Rightarrow> HazardDetection" where
  "fallbackHazard now =
     \<lparr>hz_type = ''Smoke Detected'',
      risk_level = ''High'',
      hz_location = ''Module A-12'',
      hz_timestamp = now,
      confidence = Some 92\<rparr>"

text \<open>
  One completed run of \<^verbatim>\<open>fetchData\<close>: \<open>now\<close> is the clock reading in the
  catch branch, \<open>response\<close> the outcome of the awaited request (\<open>Inr\<close> the decoded
  payload, \<open>Inl\<close> what was thrown). The state setters run in the order of the source;
  the \<^verbatim>\<open>finally\<close> block runs on both paths.
\<close>

definition fetchData :: "int \<Rightarrow> thrown + HazardDetection \<Rightarrow> DashboardState \<Rightarrow> DashboardState" where
  "fetchData now response s =
     (case response of
        Inr data \<Rightarrow> s\<lparr>hazard := Some data, error := None, loading := False\<rparr>
      | Inl err \<Rightarrow>
          (let s1 = s\<lparr>hazard := Some (fallbackHazard now)\<rparr>;
               s2 = (if isAxiosError err \<and> code err = Some ''ERR_NETWORK''
                     then s1\<lparr>error := None\<rparr> else s1)
           in s2\<lparr>loading := False\<rparr>))"

text \<open>The polling loop: the completions of \<^verbatim>\<open>fetchData\<close>, in the order they finish.\<close>

fun pollDashboard :: "(int \<times> (thrown + HazardDetection)) list \<Rightarrow> DashboardState \<Rightarrow> DashboardState" where
  "pollDashboard [] s = s"
| "pollDashboard ((now, response) # rest) s = pollDashboard rest (fetchData now response s)"

datatype severity = Low | Medium | High

record Alert =
  a_id :: string
  a_type :: string
  a_severity :: severity
  a_location :: string
  a_timestamp :: isoTime
  description :: "string option"

text \<open>
  The body of a response, \<^verbatim>\<open>response.data\<close>. It is typed as a list of
  alerts and not checked: a body that does not parse as JSON is handed over as the
  text that arrived, and nothing is thrown. \<open>OtherBody\<close> is a body that is not a
  list of alerts, by its text.
\<close>

datatype body = AlertList "Alert list" | OtherBody string

record AlertsState =
  alerts :: body
  alertsLoading :: bool

definition initialAlertsState :: AlertsState where
  "initialAlertsState = \<lparr>alerts = AlertList [], alertsLoading = True\<rparr>"

text \<open>
  The fallback list. Each record reads the clock for itself: \<open>t1\<close> to \<open>t4\<close> are
  the values of the four calls of \<^verbatim>\<open>Date.now()\<close>, in the order of the source.
\<close>

definition fallbackAlerts :: "int \<Rightarrow> int \<Rightarrow> int \<Rightarrow> int \<Rightarrow> Alert list" where
  "fallbackAlerts t1 t2 t3 t4 =
     [\<lparr>a_id = ''1'', a_type = ''Smoke Detected'', a_severity = High,
       a_location = ''Module A-12'', a_timestamp = t1 - 120000,
       description = Some ''Dense smoke detected in corridor section''\<rparr>,
      \<lparr>a_id = ''2'', a_type = ''Electrical Fault'', a_severity = Medium,
       a_location = ''Solar Array 3'', a_timestamp = t2 - 300000,
       description = Some ''Abnormal electrical discharge observed''\<rparr>,
      \<lparr>a_id = ''3'', a_type = ''Temperature Spike'', a_severity = Low,
       a_location = ''Life Support Bay'', a_timestamp = t3 - 600000,
       description = Some ''Minor temperature fluctuation recorded''\<rparr>,
      \<lparr>a_id = ''4'', a_type = ''Fire Detected'', a_severity = High,
       a_location = ''Research Lab 2'', a_timestamp = t4 - 900000,
       description = Some ''Active fire detected by visual monitoring''\<rparr>]"

text \<open>
  One completed run of \<^verbatim>\<open>fetchAlerts\<close>: \<open>response\<close> is the outcome of the
  awaited request, \<open>Inr\<close> the body of a response that arrived, \<open>Inl\<close> what was
  thrown; \<open>t1\<close> to \<open>t4\<close> are the clock readings of the catch branch.
\<close>

definition fetchAlerts ::
  "int \<Rightarrow> int \<Rightarrow> int \<Rightarrow> int \<Rightarrow> thrown + body \<Rightarrow> AlertsState \<Rightarrow> AlertsState" where
  "fetchAlerts t1 t2 t3 t4 response s =
     (case response of
        Inr data \<Rightarrow> s\<lparr>alerts := data, alertsLoading := False\<rparr>
      | Inl err \<Rightarrow>
          s\<lparr>alerts := AlertList (fallbackAlerts t1 t2 t3 t4), alertsLoading := False\<rparr>)"


section \<open>The confidence block of the dashboard\<close>

text \<open>
  The detection card holds the expression
  \<^verbatim>\<open>{hazard.confidence && (<div>...</div>)}\<close>. \<open>ConfidenceLevel c\<close> is that
  \<^verbatim>\<open>div\<close>: the label, the bar of width \<open>c\<close> percent and the text \<open>c\<close>%.
\<close>

datatype element = ConfidenceLevel int

text \<open>The values the guarded expression can have.\<close>

datatype jsx = JsxUndefined | JsxNumber int | JsxElement element

text \<open>
  \<^verbatim>\<open>a && b\<close> is \<open>a\<close> when \<open>a\<close> is falsy and \<open>b\<close> otherwise; an absent field
  reads \<^verbatim>\<open>undefined\<close>, and the falsy number is 0.
\<close>

definition confidenceGuard :: "HazardDetection \<Rightarrow> jsx" where
  "confidenceGuard h =
     (case confidence h of
        None \<Rightarrow> JsxUndefined
      | Some c \<Rightarrow> if c = 0 then JsxNumber c else JsxElement (ConfidenceLevel c))"

text \<open>
  What React puts into the document for a child expression: nothing for
  \<^verbatim>\<open>undefined\<close>, a text node with the digits for a number, the element for
  an element.
\<close>

datatype node = TextOfNumber int | ElementNode element

fun renderChild :: "jsx \<Rightarrow> node list" where
  "renderChild JsxUndefined = []"
| "renderChild (JsxNumber n) = [TextOfNumber n]"
| "renderChild (JsxElement e) = [ElementNode e]"

definition renderConfidence :: "HazardDetection \<Rightarrow> node list" where
  "renderConfidence h = renderChild (confidenceGuard h)"


section \<open>Sorting the alert history (AlertHistory)\<close>

datatype status = Resolved | Active

record HistoricalAlert =
  h_id :: string
  h_type :: string
  h_severity :: severity
  h_location :: string
  h_timestamp :: isoTime
  h_status :: status

text \<open>The mock history; \<open>now\<close> is \<^verbatim>\<open>Date.now()\<close> at the render.\<close>

definition historyAlerts :: "int \<Rightarrow> HistoricalAlert list" where
  "historyAlerts now =
     [\<lparr>h_id = ''1'', h_type = ''Smoke Detected'', h_severity = High,
       h_location = ''Module A-12'', h_timestamp = now - 7200000, h_status = Resolved\<rparr>,
      \<lparr>h_id = ''2'', h_type = ''Fire Detected'', h_severity = High,
       h_location = ''Research Lab 2'', h_timestamp = now - 14400000, h_status = Resolved\<rparr>,
      \<lparr>h_id = ''3'', h_type = ''Electrical Fault'', h_severity = Medium,
       h_location = ''Solar Array 3'', h_timestamp = now - 21600000, h_status = Resolved\<rparr>,
      \<lparr>h_id = ''4'', h_type = ''Gas Leak'', h_severity = High,
       h_location = ''Docking Port 1'', h_timestamp = now - 28800000, h_status = Resolved\<rparr>,
      \<lparr>h_id = ''5'', h_type = ''Overheating'', h_severity = Low,
       h_location = ''Equipment Bay'', h_timestamp = now - 43200000, h_status = Resolved\<rparr>,
      \<lparr>h_id = ''6'', h_type = ''Electrical Fault'', h_severity = Medium,
       h_location = ''Module B-7'', h_timestamp = now - 86400000, h_status = Resolved\<rparr>]"

fun severityOrder :: "severity \<Rightarrow> int" where
  "severityOrder High = 3"
| "severityOrder Medium = 2"
| "severityOrder Low = 1"

text \<open>
  The comparator passed to \<^verbatim>\<open>sort\<close>. \<^verbatim>\<open>localeCompare\<close> depends on the
  collation data of the host and is a parameter; it returns a negative number, zero
  or a positive number.
\<close>

definition compareAlerts ::
  "(string \<Rightarrow> string \<Rightarrow> int) \<Rightarrow> SortState \<Rightarrow> HistoricalAlert \<Rightarrow> HistoricalAlert \<Rightarrow> int" where
  "compareAlerts localeCompare s a b =
     (let compareValue =
        (if sortField s = Timestamp then h_timestamp a - h_timestamp b
         else if sortField s = Severity
         then severityOrder (h_severity a) - severityOrder (h_severity b)
         else if sortField s = Type then localeCompare (h_type a) (h_type b)
         else 0)
      in if sortOrder s = Asc then compareValue else - compareValue)"

text \<open>
  \<^verbatim>\<open>Array.prototype.sort\<close> with a comparator. The language standard leaves
  the algorithm to the engine and requires the result to be a stable sort of the
  elements whenever the comparator is consistent; the model is the stable insertion
  sort: an element passes the elements it follows and stops in front of the first
  element it does not follow.
\<close>

fun insertStable :: "('a \<Rightarrow> 'a \<Rightarrow> int) \<Rightarrow> 'a \<Rightarrow> 'a list \<Rightarrow> 'a list" where
  "insertStable cmp x [] = [x]"
| "insertStable cmp x (y # ys) =
     (if 0 < cmp x y then y # insertStable cmp x ys else x # y # ys)"

fun arraySort :: "('a \<Rightarrow> 'a \<Rightarrow> int) \<Rightarrow> 'a list \<Rightarrow> 'a list" where
  "arraySort cmp [] = []"
| "arraySort cmp (x # xs) = insertStable cmp x (arraySort cmp xs)"

text \<open>
  A consistent comparator, as the standard asks of one: every value equals itself,
  \<open>a\<close> precedes \<open>b\<close> exactly when \<open>b\<close> follows \<open>a\<close>, and "not after" is transitive.
\<close>

definition consistent :: "('a \<Rightarrow> 'a \<Rightarrow> int) \<Rightarrow> bool" where
  "consistent cmp =
     ((\<forall>a. cmp a a = 0)
      \<and> (\<forall>a b. (cmp a b < 0) = (0 < cmp b a))
      \<and> (\<forall>a b c. cmp a b \<le> 0 \<and> cmp b c \<le> 0 \<longrightarrow> cmp a c \<le> 0))"

text \<open>The value of \<^verbatim>\<open>sortedAlerts\<close> for a list of alerts.\<close>

definition sortAlerts ::
  "(string \<Rightarrow> string \<Rightarrow> int) \<Rightarrow> SortState \<Rightarrow> HistoricalAlert list \<Rightarrow> HistoricalAlert list" where
  "sortAlerts localeCompare s records = arraySort (compareAlerts localeCompare s) records"

text \<open>
  Arrays are objects: \<^verbatim>\<open>sort\<close> reorders the array it is called on and returns
  that same array, and \<^verbatim>\<open>[...alerts]\<close> allocates a new array with the elements
  of \<^verbatim>\<open>alerts\<close>. The store holds the arrays; a reference is the index of an
  array in the store. A reference the program holds always names an array of the
  store (\<open>r < length st\<close>); the properties below are stated for such references.
\<close>

type_synonym 'a store = "'a list list"

definition spread :: "nat \<Rightarrow> 'a store \<Rightarrow> nat \<times> 'a store" where
  "spread r st = (length st, st @ [st ! r])"

definition sortInPlace :: "('a \<Rightarrow> 'a \<Rightarrow> int) \<Rightarrow> nat \<Rightarrow> 'a store \<Rightarrow> nat \<times> 'a store" where
  "sortInPlace cmp r st = (r, st[r := arraySort cmp (st ! r)])"

text \<open>\<^verbatim>\<open>const sortedAlerts = [...alerts].sort((a, b) => ...)\<close>.\<close>

definition sortedAlerts ::
  "(string \<Rightarrow> string \<Rightarrow> int) \<Rightarrow> SortState \<Rightarrow> nat \<Rightarrow> HistoricalAlert store
     \<Rightarrow> nat \<times> HistoricalAlert store" where
  "sortedAlerts localeCompare s alertsRef st =
     (case spread alertsRef st of
        (copy, st1) \<Rightarrow> sortInPlace (compareAlerts localeCompare s) copy st1)"

text \<open>
  The comparison of strings by character codes, one consistent instance of the
  string comparison; the examples below use it.
\<close>

definition ordinalCompare :: "string \<Rightarrow> string \<Rightarrow> int" where
  "ordinalCompare a b = (if a < b then - 1 else if a = b then 0 else 1)"


section \<open>Properties of the string functions\<close>

lemma startsWith_prefix: "startsWith s p = prefix p s"
  by (induction s p rule: startsWith.induct) auto

lemma includes_str_sublist: "includes_str s sub = sublist sub s"
  by (induction s) (simp_all add: startsWith_prefix sublist_Cons_right)

section \<open>The severity classifier\<close>

lemma getRiskColor_refines: "getRiskColor level = riskColorOf (severityCategory_spec level)"
  by (simp add: getRiskColor_def severityCategory_spec_def includes_str_sublist Let_def)

lemma getRiskBadgeColor_refines:
  "getRiskBadgeColor level = riskBadgeColorOf (severityCategory_spec level)"
  by (simp add: getRiskBadgeColor_def severityCategory_spec_def includes_str_sublist Let_def)

lemma getSeverityColor_refines:
  "getSeverityColor level = panelColorOf (severityCategory_spec level)"
  by (simp add: getSeverityColor_def severityCategory_spec_def includes_str_sublist Let_def)

lemma severity_examples_spec:
  "severityCategory_spec ''HIGH risk'' = CatHigh"
  "severityCategory_spec ''High-Critical'' = CatHigh"
  "severityCategory_spec ''critical'' = CatHigh"
  "severityCategory_spec ''moderate concern'' = CatMedium"
  "severityCategory_spec ''nominal'' = CatLow"
  by code_simp+

lemma severity_examples_code:
  "getRiskColor ''HIGH risk'' = ''border-red-500 bg-red-500/10 text-red-400''"
  "getRiskColor ''High-Critical'' = ''border-red-500 bg-red-500/10 text-red-400''"
  "getRiskColor ''critical'' = ''border-red-500 bg-red-500/10 text-red-400''"
  "getRiskColor ''moderate concern'' = ''border-orange-500 bg-orange-500/10 text-orange-400''"
  "getRiskColor ''nominal'' = ''border-green-500 bg-green-500/10 text-green-400''"
  by code_simp+

lemma category_colors_distinct:
  "distinct (map riskColorOf [CatHigh, CatMedium, CatLow])"
  "distinct (map riskBadgeColorOf [CatHigh, CatMedium, CatLow])"
  "distinct (map panelColorOf [CatHigh, CatMedium, CatLow])"
  by simp_all

text \<open>
  Claim C1. The severity classifier is total: each of the three source functions
  (\<^verbatim>\<open>getRiskColor\<close>, \<^verbatim>\<open>getRiskBadgeColor\<close>, \<^verbatim>\<open>getSeverityColor\<close>) maps
  every string to the class string of exactly one category, and that category is
  High when the lower-cased text contains "high" or "critical", otherwise Medium when
  it contains "medium" or "moderate", otherwise Low. The class strings of the three
  categories are pairwise different, so the category can be read off the result.
  "HIGH risk", "High-Critical" and "critical" are High, "moderate concern" is Medium
  and "nominal" is Low.
\<close>

theorem severity_classifier_total:
  "getRiskColor level = riskColorOf (severityCategory_spec level)
   \<and> getRiskBadgeColor level = riskBadgeColorOf (severityCategory_spec level)
   \<and> getSeverityColor level = panelColorOf (severityCategory_spec level)
   \<and> distinct (map riskColorOf [CatHigh, CatMedium, CatLow])
   \<and> distinct (map riskBadgeColorOf [CatHigh, CatMedium, CatLow])
   \<and> distinct (map panelColorOf [CatHigh, CatMedium, CatLow])
   \<and> severityCategory_spec ''HIGH risk'' = CatHigh
   \<and> severityCategory_spec ''High-Critical'' = CatHigh
   \<and> severityCategory_spec ''critical'' = CatHigh
   \<and> severityCategory_spec ''moderate concern'' = CatMedium
   \<and> severityCategory_spec ''nominal'' = CatLow
   \<and> getRiskColor ''HIGH risk'' = ''border-red-500 bg-red-500/10 text-red-400''
   \<and> getRiskColor ''High-Critical'' = ''border-red-500 bg-red-500/10 text-red-400''
   \<and> getRiskColor ''critical'' = ''border-red-500 bg-red-500/10 text-red-400''
   \<and> getRiskColor ''moderate concern'' = ''border-orange-500 bg-orange-500/10 text-orange-400''
   \<and> getRiskColor ''nominal'' = ''border-green-500 bg-green-500/10 text-green-400''"
  using getRiskColor_refines [of level] getRiskBadgeColor_refines [of level]
    getSeverityColor_refines [of level] category_colors_distinct
    severity_examples_spec severity_examples_code
  by blast


section \<open>The recommended actions\<close>

lemma getSafetyActions_refines: "getSafetyActions t = recommendedActions_spec t"
  by (simp add: getSafetyActions_def recommendedActions_spec_def keywordTable_spec_def
      includes_str_sublist Let_def)

lemma getSafetyActions_length: "length (getSafetyActions t) \<in> {5, 6}"
  by (simp add: getSafetyActions_def Let_def fireActions_def smokeActions_def
      electricalActions_def gasActions_def overheatActions_def genericActions_def)

lemma getSafetyActions_fire:
  "sublist ''fire'' (toLowerCase t) \<Longrightarrow> getSafetyActions t = fireActions"
  by (simp add: getSafetyActions_def includes_str_sublist Let_def)

lemma getSafetyActions_generic:
  "\<not> list_ex (\<lambda>kw. sublist kw (toLowerCase t)) (concat (map fst keywordTable_spec))
   \<Longrightarrow> getSafetyActions t = genericActions"
  by (simp add: getSafetyActions_def keywordTable_spec_def includes_str_sublist Let_def)

lemma checklists_facts:
  "fireActions \<noteq> smokeActions"
  "length fireActions = 6" "length smokeActions = 6" "length electricalActions = 6"
  "length gasActions = 6" "length overheatActions = 6" "length genericActions = 5"
  by (simp_all add: fireActions_def smokeActions_def electricalActions_def gasActions_def
      overheatActions_def genericActions_def)

lemma fire_and_smoke_example: "getSafetyActions ''Fire and Smoke Detected'' = fireActions"
  by code_simp

text \<open>
  Case-insensitive containment outside ASCII: the KELVIN SIGN lower-cases to k, so it
  completes the keywords smoke and leak.
\<close>

lemma kelvin_sign_examples:
  "toLowerCase (''SMO'' @ kelvinSign @ ''E'') = ''smoke''"
  "getSafetyActions (''SMO'' @ kelvinSign @ ''E'') = smokeActions"
  "getSafetyActions (''lea'' @ kelvinSign) = gasActions"
  by code_simp+

text \<open>
  Claim C2. \<^verbatim>\<open>getSafetyActions\<close> is the ordered decision table fire, smoke,
  electrical/spark, gas/leak, overheat/temperature with first match wins on
  containment in the lower-cased hazard type; every result has 5 or 6 entries (the
  five keyword checklists have 6, the generic one 5). A type containing "fire" gets
  the fire checklist whatever else it contains, so "Fire and Smoke Detected" gets the
  fire checklist, which differs from the smoke checklist; a type containing none of
  the keywords gets the generic 5-step checklist. The lower-casing is that of the
  host also where it leaves ASCII: "SMO", KELVIN SIGN, "E" gets the smoke checklist
  and "lea", KELVIN SIGN the gas checklist.
\<close>

theorem recommendedActions_first_match:
  "getSafetyActions t = recommendedActions_spec t
   \<and> length (getSafetyActions t) \<in> {5, 6}
   \<and> length fireActions = 6 \<and> length smokeActions = 6 \<and> length electricalActions = 6
   \<and> length gasActions = 6 \<and> length overheatActions = 6 \<and> length genericActions = 5
   \<and> (sublist ''fire'' (toLowerCase t) \<longrightarrow> getSafetyActions t = fireActions)
   \<and> getSafetyActions ''Fire and Smoke Detected'' = fireActions
   \<and> fireActions \<noteq> smokeActions
   \<and> (\<not> list_ex (\<lambda>kw. sublist kw (toLowerCase t)) (concat (map fst keywordTable_spec))
        \<longrightarrow> getSafetyActions t = genericActions)
   \<and> toLowerCase (''SMO'' @ kelvinSign @ ''E'') = ''smoke''
   \<and> getSafetyActions (''SMO'' @ kelvinSign @ ''E'') = smokeActions
   \<and> getSafetyActions (''lea'' @ kelvinSign) = gasActions"
  using getSafetyActions_refines [of t] getSafetyActions_length [of t]
    getSafetyActions_fire [of t] getSafetyActions_generic [of t]
    checklists_facts fire_and_smoke_example kelvin_sign_examples
  by blast

theorem recommendedActions_first_match_witness:
  "sublist ''fire'' (toLowerCase ''Smoke, then FIRE'')
   \<and> sublist ''smoke'' (toLowerCase ''Smoke, then FIRE'')
   \<and> getSafetyActions ''Smoke, then FIRE'' = fireActions
   \<and> \<not> list_ex (\<lambda>kw. sublist kw (toLowerCase ''Hull breach''))
         (concat (map fst keywordTable_spec))
   \<and> getSafetyActions ''Hull breach'' = genericActions
   \<and> length (getSafetyActions ''Hull breach'') = 5"
proof -
  have fire: "sublist ''fire'' (toLowerCase ''Smoke, then FIRE'')"
    by code_simp
  have smoke: "sublist ''smoke'' (toLowerCase ''Smoke, then FIRE'')"
    by code_simp
  have none: "\<not> list_ex (\<lambda>kw. sublist kw (toLowerCase ''Hull breach''))
      (concat (map fst keywordTable_spec))"
    by code_simp
  from recommendedActions_first_match [of "''Smoke, then FIRE''"] fire
  have r1: "getSafetyActions ''Smoke, then FIRE'' = fireActions"
    by blast
  from recommendedActions_first_match [of "''Hull breach''"] none
  have r2: "getSafetyActions ''Hull breach'' = genericActions \<and> length genericActions = 5"
    by blast
  from fire smoke none r1 r2 show ?thesis
    by simp
qed


section \<open>The sort selection\<close>

text \<open>
  Claim C5. The toggle contract of \<^verbatim>\<open>handleSort\<close>: on the active field the
  field stays and the order flips (asc to desc, desc to asc); on another field the
  field becomes the new field and the order becomes desc.
\<close>

theorem handleSort_toggle:
  "(sortField s = field \<longrightarrow>
      sortField (handleSort s field) = sortField s
      \<and> (sortOrder s = Asc \<longrightarrow> sortOrder (handleSort s field) = Desc)
      \<and> (sortOrder s = Desc \<longrightarrow> sortOrder (handleSort s field) = Asc))
   \<and> (sortField s \<noteq> field \<longrightarrow>
      sortField (handleSort s field) = field \<and> sortOrder (handleSort s field) = Desc)"
  by (cases "sortOrder s") (simp_all add: handleSort_def)

theorem handleSort_toggle_witness:
  "sortField (handleSort \<lparr>sortField = Severity, sortOrder = Asc\<rparr> Severity) = Severity
   \<and> sortOrder (handleSort \<lparr>sortField = Severity, sortOrder = Asc\<rparr> Severity) = Desc
   \<and> sortField (handleSort \<lparr>sortField = Severity, sortOrder = Desc\<rparr> Severity) = Severity
   \<and> sortOrder (handleSort \<lparr>sortField = Severity, sortOrder = Desc\<rparr> Severity) = Asc
   \<and> sortField (handleSort \<lparr>sortField = Severity, sortOrder = Asc\<rparr> Type) = Type
   \<and> sortOrder (handleSort \<lparr>sortField = Severity, sortOrder = Asc\<rparr> Type) = Desc"
  using handleSort_toggle [of "\<lparr>sortField = Severity, sortOrder = Asc\<rparr>" Severity]
    handleSort_toggle [of "\<lparr>sortField = Severity, sortOrder = Desc\<rparr>" Severity]
    handleSort_toggle [of "\<lparr>sortField = Severity, sortOrder = Asc\<rparr>" Type]
  by simp

text \<open>
  Claim C6, as stated: from the default state (timestamp, desc), two calls of
  \<^verbatim>\<open>handleSort\<close> on timestamp end with order asc and field timestamp. The
  code does not do this: the first call flips desc to asc and the second flips asc
  back to desc.
\<close>

theorem toggle_twice_not_asc:
  "\<not> (sortOrder (handleSort (handleSort initialSortState Timestamp) Timestamp) = Asc
      \<and> sortField (handleSort (handleSort initialSortState Timestamp) Timestamp) = Timestamp)"
  by (simp add: handleSort_def initialSortState_def)

text \<open>
  Claim C6, amended: from the default state (timestamp, desc), the first call of
  \<^verbatim>\<open>handleSort\<close> on timestamp gives order asc and the second call gives order
  desc again; the field is timestamp throughout.
\<close>

theorem toggle_twice_from_default:
  "sortField initialSortState = Timestamp
   \<and> sortOrder initialSortState = Desc
   \<and> sortField (handleSort initialSortState Timestamp) = Timestamp
   \<and> sortOrder (handleSort initialSortState Timestamp) = Asc
   \<and> sortField (handleSort (handleSort initialSortState Timestamp) Timestamp) = Timestamp
   \<and> sortOrder (handleSort (handleSort initialSortState Timestamp) Timestamp) = Desc"
  by (simp add: handleSort_def initialSortState_def)

section \<open>Properties of the comparator and of the sort\<close>

lemma consistent_refl: "consistent cmp \<Longrightarrow> cmp a a = 0"
  by (simp add: consistent_def)

lemma consistent_flip: "consistent cmp \<Longrightarrow> (cmp a b < 0) = (0 < cmp b a)"
  by (simp add: consistent_def)

lemma consistent_trans:
  "consistent cmp \<Longrightarrow> cmp a b \<le> 0 \<Longrightarrow> cmp b c \<le> 0 \<Longrightarrow> cmp a c \<le> 0"
  unfolding consistent_def by blast

lemma consistent_zero_sym: 
  assumes "consistent cmp" shows "(cmp a b = 0) = (cmp b a = 0)"
  using consistent_flip [OF assms, of a b] consistent_flip [OF assms, of b a]
  by linarith

lemma consistent_zero_trans:
  assumes c: "consistent cmp" and ax: "cmp a x = 0" and ay: "cmp a y = 0"
  shows "cmp x y = 0"
proof -
  from ax have xa: "cmp x a = 0"
    using consistent_zero_sym [OF c, of a x] by simp
  from ay have ya: "cmp y a = 0"
    using consistent_zero_sym [OF c, of a y] by simp
  have le: "cmp x y \<le> 0"
    using consistent_trans [OF c, of x a y] xa ay by simp
  have "cmp y x \<le> 0"
    using consistent_trans [OF c, of y a x] ya ax by simp
  then have "\<not> cmp x y < 0"
    using consistent_flip [OF c, of x y] by simp
  with le show ?thesis by simp
qed

lemma consistent_negate:
  assumes c: "consistent cmp"
  shows "consistent (\<lambda>a b. - cmp a b)"
  unfolding consistent_def
proof (intro conjI allI impI)
  fix a show "- cmp a a = 0"
    using consistent_refl [OF c] by simp
next
  fix a b show "(- cmp a b < 0) = (0 < - cmp b a)"
    using consistent_flip [OF c, of b a] by simp
next
  fix a b d assume h: "- cmp a b \<le> 0 \<and> - cmp b d \<le> 0"
  from h have "cmp b a \<le> 0"
    using consistent_flip [OF c, of a b] by simp
  moreover from h have "cmp d b \<le> 0"
    using consistent_flip [OF c, of b d] by simp
  ultimately have "cmp d a \<le> 0"
    using consistent_trans [OF c, of d b a] by simp
  then show "- cmp a d \<le> 0"
    using consistent_flip [OF c, of a d] by simp
qed

lemma consistent_difference: "consistent (\<lambda>a b. (key a :: int) - key b)"
  by (simp add: consistent_def)

lemma consistent_on_field:
  assumes c: "consistent cmp"
  shows "consistent (\<lambda>a b. cmp (f a) (f b))"
  unfolding consistent_def
proof (intro conjI allI impI)
  fix a show "cmp (f a) (f a) = 0"
    using consistent_refl [OF c] by simp
next
  fix a b show "(cmp (f a) (f b) < 0) = (0 < cmp (f b) (f a))"
    using consistent_flip [OF c] by simp
next
  fix a b d assume "cmp (f a) (f b) \<le> 0 \<and> cmp (f b) (f d) \<le> 0"
  then show "cmp (f a) (f d) \<le> 0"
    using consistent_trans [OF c] by blast
qed

lemma compareAlerts_asc:
  "compareAlerts lc \<lparr>sortField = Timestamp, sortOrder = Asc\<rparr> = (\<lambda>a b. h_timestamp a - h_timestamp b)"
  "compareAlerts lc \<lparr>sortField = Severity, sortOrder = Asc\<rparr>
     = (\<lambda>a b. severityOrder (h_severity a) - severityOrder (h_severity b))"
  "compareAlerts lc \<lparr>sortField = Type, sortOrder = Asc\<rparr> = (\<lambda>a b. lc (h_type a) (h_type b))"
  by (simp_all add: compareAlerts_def fun_eq_iff)

lemma compareAlerts_desc:
  "compareAlerts lc \<lparr>sortField = field, sortOrder = Desc\<rparr>
     = (\<lambda>a b. - compareAlerts lc \<lparr>sortField = field, sortOrder = Asc\<rparr> a b)"
  by (simp add: compareAlerts_def fun_eq_iff)

lemma consistent_compareAlerts_asc:
  assumes "field = Type \<longrightarrow> consistent lc"
  shows "consistent (compareAlerts lc \<lparr>sortField = field, sortOrder = Asc\<rparr>)"
proof (cases field)
  case Timestamp
  then show ?thesis by (simp add: compareAlerts_asc consistent_difference)
next
  case Severity
  then show ?thesis by (simp add: compareAlerts_asc consistent_difference)
next
  case Type
  with assms have "consistent lc" by simp
  then have "consistent (\<lambda>a b. lc (h_type a) (h_type b))"
    by (rule consistent_on_field)
  with Type show ?thesis by (simp add: compareAlerts_asc)
qed

lemma consistent_compareAlerts:
  assumes "sortField s = Type \<longrightarrow> consistent lc"
  shows "consistent (compareAlerts lc s)"
proof -
  obtain field ord where s: "s = \<lparr>sortField = field, sortOrder = ord\<rparr>"
    by (cases s) simp
  with assms have asc: "consistent (compareAlerts lc \<lparr>sortField = field, sortOrder = Asc\<rparr>)"
    by (simp add: consistent_compareAlerts_asc)
  show ?thesis
  proof (cases ord)
    case Asc
    with s asc show ?thesis by simp
  next
    case Desc
    from asc have "consistent (\<lambda>a b. - compareAlerts lc \<lparr>sortField = field, sortOrder = Asc\<rparr> a b)"
      by (rule consistent_negate)
    with s Desc show ?thesis by (simp add: compareAlerts_desc)
  qed
qed

lemma mset_insertStable: "mset (insertStable cmp x ys) = add_mset x (mset ys)"
  by (induction ys) simp_all

lemma mset_arraySort: "mset (arraySort cmp xs) = mset xs"
  by (induction xs) (simp_all add: mset_insertStable)

lemma set_insertStable: "set (insertStable cmp x ys) = insert x (set ys)"
  using mset_insertStable [of cmp x ys] by (metis set_mset_add_mset_insert set_mset_mset)

lemma set_arraySort: "set (arraySort cmp xs) = set xs"
  using mset_arraySort [of cmp xs] by (metis set_mset_mset)

lemma sorted_insertStable:
  assumes c: "consistent cmp"
  shows "sorted_wrt (\<lambda>a b. cmp a b \<le> 0) ys \<Longrightarrow> sorted_wrt (\<lambda>a b. cmp a b \<le> 0) (insertStable cmp x ys)"
proof (induction ys)
  case Nil
  then show ?case by simp
next
  case (Cons y ys)
  show ?case
  proof (cases "0 < cmp x y")
    case True
    then have yx: "cmp y x \<le> 0"
      using consistent_flip [OF c, of y x] by simp
    from Cons.prems have "\<forall>z\<in>set ys. cmp y z \<le> 0" and "sorted_wrt (\<lambda>a b. cmp a b \<le> 0) ys"
      by simp_all
    with yx Cons.IH True show ?thesis
      by (simp add: set_insertStable)
  next
    case False
    then have xy: "cmp x y \<le> 0" by simp
    from Cons.prems have ys: "\<forall>z\<in>set ys. cmp y z \<le> 0"
      by simp
    have "\<forall>z\<in>set ys. cmp x z \<le> 0"
    proof
      fix z assume "z \<in> set ys"
      with ys have "cmp y z \<le> 0" by simp
      with xy show "cmp x z \<le> 0" by (rule consistent_trans [OF c])
    qed
    with xy False Cons.prems show ?thesis by simp
  qed
qed

lemma sorted_arraySort:
  "consistent cmp \<Longrightarrow> sorted_wrt (\<lambda>a b. cmp a b \<le> 0) (arraySort cmp xs)"
  by (induction xs) (simp_all add: sorted_insertStable)

lemma filter_insertStable_other:
  "cmp a x \<noteq> 0 \<Longrightarrow> filter (\<lambda>b. cmp a b = 0) (insertStable cmp x ys) = filter (\<lambda>b. cmp a b = 0) ys"
  by (induction ys) simp_all

lemma filter_insertStable_same:
  assumes c: "consistent cmp" and ax: "cmp a x = 0"
  shows "filter (\<lambda>b. cmp a b = 0) (insertStable cmp x ys) = x # filter (\<lambda>b. cmp a b = 0) ys"
proof (induction ys)
  case Nil
  from ax show ?case by simp
next
  case (Cons y ys)
  show ?case
  proof (cases "0 < cmp x y")
    case True
    have "cmp a y \<noteq> 0"
    proof
      assume "cmp a y = 0"
      with c ax have "cmp x y = 0" by (rule consistent_zero_trans)
      with True show False by simp
    qed
    with True Cons.IH show ?thesis by simp
  next
    case False
    with ax show ?thesis by simp
  qed
qed

lemma arraySort_stable:
  assumes c: "consistent cmp"
  shows "filter (\<lambda>b. cmp a b = 0) (arraySort cmp xs) = filter (\<lambda>b. cmp a b = 0) xs"
proof (induction xs)
  case Nil
  show ?case by simp
next
  case (Cons x xs)
  show ?case
  proof (cases "cmp a x = 0")
    case True
    with c have "filter (\<lambda>b. cmp a b = 0) (insertStable cmp x (arraySort cmp xs))
        = x # filter (\<lambda>b. cmp a b = 0) (arraySort cmp xs)"
      by (rule filter_insertStable_same)
    with True Cons.IH show ?thesis by simp
  next
    case False
    then have "filter (\<lambda>b. cmp a b = 0) (insertStable cmp x (arraySort cmp xs))
        = filter (\<lambda>b. cmp a b = 0) (arraySort cmp xs)"
      by (rule filter_insertStable_other)
    with False Cons.IH show ?thesis by simp
  qed
qed

lemma arraySort_sorted_id:
  "sorted_wrt (\<lambda>a b. cmp a b \<le> 0) xs \<Longrightarrow> arraySort cmp xs = xs"
proof (induction xs)
  case Nil
  show ?case by simp
next
  case (Cons x xs)
  then have rest: "arraySort cmp xs = xs" by simp
  from Cons.prems have "insertStable cmp x xs = x # xs"
    by (cases xs) auto
  with rest show ?case by simp
qed

lemma arraySort_idem:
  "consistent cmp \<Longrightarrow> arraySort cmp (arraySort cmp xs) = arraySort cmp xs"
  by (simp add: arraySort_sorted_id sorted_arraySort)

lemma strict_insertStable:
  assumes c: "consistent cmp"
  shows "sorted_wrt (\<lambda>a b. cmp a b < 0) ys \<Longrightarrow> \<forall>y\<in>set ys. cmp x y \<noteq> 0
    \<Longrightarrow> sorted_wrt (\<lambda>a b. cmp a b < 0) (insertStable cmp x ys)"
proof (induction ys)
  case Nil
  then show ?case by simp
next
  case (Cons y ys)
  show ?case
  proof (cases "0 < cmp x y")
    case True
    then have yx: "cmp y x < 0"
      using consistent_flip [OF c, of y x] by simp
    with True Cons show ?thesis
      by (simp add: set_insertStable)
  next
    case False
    with Cons.prems have xy: "cmp x y < 0" by simp
    have "\<forall>z\<in>set ys. cmp x z < 0"
    proof
      fix z assume z: "z \<in> set ys"
      with Cons.prems have "cmp y z \<le> 0" by auto
      with xy have "cmp x z \<le> 0"
        using consistent_trans [OF c, of x y z] by simp
      moreover from z Cons.prems have "cmp x z \<noteq> 0" by simp
      ultimately show "cmp x z < 0" by simp
    qed
    with xy False Cons.prems show ?thesis by simp
  qed
qed

lemma strict_arraySort:
  assumes c: "consistent cmp"
  shows "sorted_wrt (\<lambda>a b. cmp a b \<noteq> 0) xs \<Longrightarrow> sorted_wrt (\<lambda>a b. cmp a b < 0) (arraySort cmp xs)"
proof (induction xs)
  case Nil
  show ?case by simp
next
  case (Cons x xs)
  then have "sorted_wrt (\<lambda>a b. cmp a b < 0) (arraySort cmp xs)"
    and "\<forall>y\<in>set (arraySort cmp xs). cmp x y \<noteq> 0"
    by (simp_all add: set_arraySort)
  then show ?case
    by (simp add: strict_insertStable [OF c])
qed

lemma strict_sorted_unique:
  assumes asym: "\<And>a b. cmp a b < 0 \<Longrightarrow> \<not> cmp b a < (0::int)"
  shows "sorted_wrt (\<lambda>a b. cmp a b < 0) xs \<Longrightarrow> sorted_wrt (\<lambda>a b. cmp a b < 0) ys
    \<Longrightarrow> set xs = set ys \<Longrightarrow> xs = ys"
proof (induction xs arbitrary: ys)
  case Nil
  then show ?case by simp
next
  case (Cons x xs)
  from Cons.prems(3) obtain y ys' where ys: "ys = y # ys'"
    by (cases ys) auto
  have irrefl: "\<And>a. \<not> cmp a a < 0"
    using asym by blast
  have xy: "x = y"
  proof (rule ccontr)
    assume ne: "x \<noteq> y"
    from Cons.prems(3) ys ne have "x \<in> set ys'" and "y \<in> set xs"
      by auto
    with Cons.prems(1,2) ys have "cmp y x < 0" and "cmp x y < 0"
      by auto
    with asym show False by blast
  qed
  from Cons.prems(1) irrefl have x1: "x \<notin> set xs" by auto
  from Cons.prems(2) ys xy irrefl have x2: "x \<notin> set ys'" by auto
  from Cons.prems(1) have "sorted_wrt (\<lambda>a b. cmp a b < 0) xs" by simp
  moreover from Cons.prems(2) ys have "sorted_wrt (\<lambda>a b. cmp a b < 0) ys'" by simp
  moreover from Cons.prems(3) ys xy x1 x2 have "set xs = set ys'"
    by auto
  ultimately have "xs = ys'" by (rule Cons.IH)
  with xy ys show ?case by simp
qed

lemma arraySort_negate_rev:
  assumes c: "consistent cmp" and d: "sorted_wrt (\<lambda>a b. cmp a b \<noteq> 0) xs"
  shows "arraySort (\<lambda>a b. - cmp a b) xs = rev (arraySort cmp xs)"
proof -
  have asym: "\<And>a b. cmp a b < 0 \<Longrightarrow> \<not> cmp b a < 0"
    using consistent_flip [OF c] by (metis less_asym)
  have up: "sorted_wrt (\<lambda>a b. cmp a b < 0) (arraySort cmp xs)"
    using c d by (rule strict_arraySort)
  from d have "sorted_wrt (\<lambda>a b. - cmp a b \<noteq> 0) xs" by simp
  with consistent_negate [OF c]
  have "sorted_wrt (\<lambda>a b. - cmp a b < 0) (arraySort (\<lambda>a b. - cmp a b) xs)"
    by (rule strict_arraySort)
  then have "sorted_wrt (\<lambda>a b. cmp b a < 0) (arraySort (\<lambda>a b. - cmp a b) xs)"
    by (rule sorted_wrt_mono_rel [rotated]) (simp add: consistent_flip [OF c])
  then have down: "sorted_wrt (\<lambda>a b. cmp a b < 0) (rev (arraySort (\<lambda>a b. - cmp a b) xs))"
    by (simp add: sorted_wrt_rev)
  have "set (arraySort cmp xs) = set (rev (arraySort (\<lambda>a b. - cmp a b) xs))"
    by (simp add: set_arraySort)
  with asym up down have "arraySort cmp xs = rev (arraySort (\<lambda>a b. - cmp a b) xs)"
    by (rule strict_sorted_unique)
  then show ?thesis by simp
qed

lemma sortedAlerts_store:
  "sortedAlerts lc s r st = (length st, st @ [sortAlerts lc s (st ! r)])"
  by (simp add: sortedAlerts_def spread_def sortInPlace_def sortAlerts_def)

lemma consistent_ordinalCompare: "consistent ordinalCompare"
  unfolding consistent_def ordinalCompare_def
  by (auto simp add: not_less)

text \<open>
  For a consistent comparator the stable sorted arrangement of a list is unique, so
  every sort that meets the standard returns what \<^const>\<open>arraySort\<close> returns.
\<close>

lemma stable_sorted_unique:
  assumes c: "consistent cmp"
  shows "sorted_wrt (\<lambda>a b. cmp a b \<le> 0) ys \<Longrightarrow> sorted_wrt (\<lambda>a b. cmp a b \<le> 0) zs
    \<Longrightarrow> (\<And>a. filter (\<lambda>b. cmp a b = 0) ys = filter (\<lambda>b. cmp a b = 0) zs) \<Longrightarrow> ys = zs"
proof (induction ys arbitrary: zs)
  case Nil
  show ?case
  proof (cases zs)
    case Nil
    then show ?thesis by simp
  next
    case (Cons z zs')
    with Nil.prems(3) [of z] consistent_refl [OF c, of z] show ?thesis
      by simp
  qed
next
  case (Cons y ys)
  have yy: "cmp y y = 0"
    by (rule consistent_refl [OF c])
  with Cons.prems(3) [of y] have hd_y: "filter (\<lambda>b. cmp y b = 0) zs = y # filter (\<lambda>b. cmp y b = 0) ys"
    by simp
  then obtain z zs' where zs: "zs = z # zs'"
    by (cases zs) auto
  have zz: "cmp z z = 0"
    by (rule consistent_refl [OF c])
  from hd_y have "y \<in> set (filter (\<lambda>b. cmp y b = 0) zs)"
    by simp
  then have "y \<in> set zs" by simp
  with Cons.prems(2) zs zz have zy: "cmp z y \<le> 0"
    by auto
  from Cons.prems(3) [of z] zs zz have "z \<in> set (filter (\<lambda>b. cmp z b = 0) (y # ys))"
    by simp
  then have "z \<in> set (y # ys)"
    by (auto split: if_splits)
  with Cons.prems(1) yy have yz: "cmp y z \<le> 0"
    by auto
  from zy have "\<not> cmp y z < 0"
    using consistent_flip [OF c, of y z] by simp
  with yz have eq: "cmp y z = 0" by simp
  with hd_y zs have z: "z = y" by simp
  have "ys = zs'"
  proof (rule Cons.IH)
    from Cons.prems(1) show "sorted_wrt (\<lambda>a b. cmp a b \<le> 0) ys" by simp
    from Cons.prems(2) zs show "sorted_wrt (\<lambda>a b. cmp a b \<le> 0) zs'" by simp
    fix a
    from Cons.prems(3) [of a] zs z
    show "filter (\<lambda>b. cmp a b = 0) ys = filter (\<lambda>b. cmp a b = 0) zs'"
      by (cases "cmp a y = 0") simp_all
  qed
  with zs z show ?case by simp
qed

lemma arraySort_determined:
  assumes c: "consistent cmp"
    and sorted: "sorted_wrt (\<lambda>a b. cmp a b \<le> 0) ys"
    and stable: "\<And>a. filter (\<lambda>b. cmp a b = 0) ys = filter (\<lambda>b. cmp a b = 0) xs"
  shows "ys = arraySort cmp xs"
proof (rule stable_sorted_unique [OF c sorted])
  from c show "sorted_wrt (\<lambda>a b. cmp a b \<le> 0) (arraySort cmp xs)"
    by (rule sorted_arraySort)
  fix a
  from stable [of a] arraySort_stable [OF c, of a xs]
  show "filter (\<lambda>b. cmp a b = 0) ys = filter (\<lambda>b. cmp a b = 0) (arraySort cmp xs)"
    by simp
qed

text \<open>The mock history under three sort selections.\<close>

lemma history_by_timestamp:
  "map h_id (sortAlerts ordinalCompare \<lparr>sortField = Timestamp, sortOrder = Asc\<rparr>
     (historyAlerts 1700000000000)) = [''6'', ''5'', ''4'', ''3'', ''2'', ''1'']"
  by (simp add: sortAlerts_def compareAlerts_def historyAlerts_def)

lemma history_by_type:
  "map h_id (sortAlerts ordinalCompare \<lparr>sortField = Type, sortOrder = Asc\<rparr>
     (historyAlerts 1700000000000)) = [''3'', ''6'', ''2'', ''4'', ''5'', ''1'']"
  by code_simp

lemma history_by_severity_desc:
  "map h_id (sortAlerts ordinalCompare \<lparr>sortField = Severity, sortOrder = Desc\<rparr>
     (historyAlerts 1700000000000)) = [''1'', ''2'', ''4'', ''3'', ''6'', ''5'']"
  by (simp add: sortAlerts_def compareAlerts_def historyAlerts_def)

lemma history_keys_distinct:
  "sorted_wrt (\<lambda>a b. compareAlerts ordinalCompare \<lparr>sortField = Timestamp, sortOrder = Asc\<rparr> a b \<noteq> 0)
     (historyAlerts 1700000000000)"
  by (simp add: compareAlerts_def historyAlerts_def)

lemma history_high_severity:
  "map h_id (filter (\<lambda>b. compareAlerts ordinalCompare \<lparr>sortField = Severity, sortOrder = Desc\<rparr>
       (hd (historyAlerts 1700000000000)) b = 0) (historyAlerts 1700000000000))
     = [''1'', ''2'', ''4'']"
  by (simp add: compareAlerts_def historyAlerts_def)


section \<open>The sorted alert history\<close>

text \<open>
  Claim C3. \<^verbatim>\<open>[...alerts].sort(...)\<close> returns a new array: its reference
  differs from that of the input, the input array and every other array of the store
  are unchanged, and the new array holds the sorted records. The sorted records are
  a permutation of the input, ordered by the comparator of the selection: no record
  follows a later one. The comparator is the difference of the time values for
  timestamp, the difference of the ranks High 3, Medium 2, Low 1 for severity and the
  string comparison for type; for desc it is the negated comparator of asc, and when
  no two records of the input have equal keys the desc result is the reverse of the
  asc result. The string comparison of the host is assumed consistent when the type
  column is selected; timestamps are valid, as all timestamps of the component are.
\<close>

theorem alert_sort_ordered:
  assumes lc: "sortField s = Type \<longrightarrow> consistent localeCompare"
    and ref: "alertsRef < length st"
  shows "fst (sortedAlerts localeCompare s alertsRef st) \<noteq> alertsRef
    \<and> snd (sortedAlerts localeCompare s alertsRef st) ! alertsRef = st ! alertsRef
    \<and> take (length st) (snd (sortedAlerts localeCompare s alertsRef st)) = st
    \<and> snd (sortedAlerts localeCompare s alertsRef st) ! fst (sortedAlerts localeCompare s alertsRef st)
        = sortAlerts localeCompare s (st ! alertsRef)
    \<and> mset (sortAlerts localeCompare s records) = mset records
    \<and> sorted_wrt (\<lambda>a b. compareAlerts localeCompare s a b \<le> 0) (sortAlerts localeCompare s records)
    \<and> compareAlerts localeCompare \<lparr>sortField = Timestamp, sortOrder = Asc\<rparr> a b
        = h_timestamp a - h_timestamp b
    \<and> compareAlerts localeCompare \<lparr>sortField = Severity, sortOrder = Asc\<rparr> a b
        = severityOrder (h_severity a) - severityOrder (h_severity b)
    \<and> severityOrder High = 3 \<and> severityOrder Medium = 2 \<and> severityOrder Low = 1
    \<and> compareAlerts localeCompare \<lparr>sortField = Type, sortOrder = Asc\<rparr> a b
        = localeCompare (h_type a) (h_type b)
    \<and> compareAlerts localeCompare (s\<lparr>sortOrder := Desc\<rparr>) a b
        = - compareAlerts localeCompare (s\<lparr>sortOrder := Asc\<rparr>) a b
    \<and> (sorted_wrt (\<lambda>a b. compareAlerts localeCompare s a b \<noteq> 0) records \<longrightarrow>
          sortAlerts localeCompare (s\<lparr>sortOrder := Desc\<rparr>) records
            = rev (sortAlerts localeCompare (s\<lparr>sortOrder := Asc\<rparr>) records))"
proof -
  obtain field ord where s: "s = \<lparr>sortField = field, sortOrder = ord\<rparr>"
    by (cases s) simp
  have store: "sortedAlerts localeCompare s alertsRef st
      = (length st, st @ [sortAlerts localeCompare s (st ! alertsRef)])"
    by (rule sortedAlerts_store)
  from ref have p1: "fst (sortedAlerts localeCompare s alertsRef st) \<noteq> alertsRef"
    by (simp add: store)
  from ref have p2: "snd (sortedAlerts localeCompare s alertsRef st) ! alertsRef = st ! alertsRef"
    by (simp add: store nth_append)
  have p3: "take (length st) (snd (sortedAlerts localeCompare s alertsRef st)) = st"
    by (simp add: store)
  have p4: "snd (sortedAlerts localeCompare s alertsRef st)
        ! fst (sortedAlerts localeCompare s alertsRef st)
      = sortAlerts localeCompare s (st ! alertsRef)"
    by (simp add: store)
  have p5: "mset (sortAlerts localeCompare s records) = mset records"
    by (simp add: sortAlerts_def mset_arraySort)
  from lc have c: "consistent (compareAlerts localeCompare s)"
    by (rule consistent_compareAlerts)
  then have p6: "sorted_wrt (\<lambda>a b. compareAlerts localeCompare s a b \<le> 0)
      (sortAlerts localeCompare s records)"
    by (simp add: sortAlerts_def sorted_arraySort)
  have p7: "compareAlerts localeCompare (s\<lparr>sortOrder := Desc\<rparr>) a b
      = - compareAlerts localeCompare (s\<lparr>sortOrder := Asc\<rparr>) a b"
    by (simp add: compareAlerts_def)
  have p8: "sortAlerts localeCompare (s\<lparr>sortOrder := Desc\<rparr>) records
      = rev (sortAlerts localeCompare (s\<lparr>sortOrder := Asc\<rparr>) records)"
    if d: "sorted_wrt (\<lambda>a b. compareAlerts localeCompare s a b \<noteq> 0) records"
  proof -
    from lc s have ca: "consistent (compareAlerts localeCompare \<lparr>sortField = field, sortOrder = Asc\<rparr>)"
      by (simp add: consistent_compareAlerts_asc)
    from d s have "sorted_wrt (\<lambda>a b. compareAlerts localeCompare \<lparr>sortField = field, sortOrder = Asc\<rparr> a b \<noteq> 0) records"
      by (cases ord) (simp_all add: compareAlerts_desc)
    with ca have "arraySort (\<lambda>a b. - compareAlerts localeCompare \<lparr>sortField = field, sortOrder = Asc\<rparr> a b) records
        = rev (arraySort (compareAlerts localeCompare \<lparr>sortField = field, sortOrder = Asc\<rparr>) records)"
      by (rule arraySort_negate_rev)
    with s show ?thesis
      by (simp add: sortAlerts_def compareAlerts_desc)
  qed
  from p1 p2 p3 p4 p5 p6 p7 p8 show ?thesis
    by (simp add: compareAlerts_asc)
qed

theorem alert_sort_ordered_witness:
  "consistent ordinalCompare
   \<and> (0::nat) < length [historyAlerts 1700000000000]
   \<and> sorted_wrt (\<lambda>a b. compareAlerts ordinalCompare \<lparr>sortField = Timestamp, sortOrder = Desc\<rparr> a b \<noteq> 0)
        (historyAlerts 1700000000000)
   \<and> fst (sortedAlerts ordinalCompare \<lparr>sortField = Type, sortOrder = Asc\<rparr> 0
        [historyAlerts 1700000000000]) \<noteq> 0
   \<and> snd (sortedAlerts ordinalCompare \<lparr>sortField = Type, sortOrder = Asc\<rparr> 0
        [historyAlerts 1700000000000]) ! 0 = historyAlerts 1700000000000
   \<and> mset (sortAlerts ordinalCompare \<lparr>sortField = Type, sortOrder = Asc\<rparr>
        (historyAlerts 1700000000000)) = mset (historyAlerts 1700000000000)
   \<and> sorted_wrt (\<lambda>a b. compareAlerts ordinalCompare \<lparr>sortField = Type, sortOrder = Asc\<rparr> a b \<le> 0)
        (sortAlerts ordinalCompare \<lparr>sortField = Type, sortOrder = Asc\<rparr>
          (historyAlerts 1700000000000))
   \<and> map h_id (sortAlerts ordinalCompare \<lparr>sortField = Type, sortOrder = Asc\<rparr>
        (historyAlerts 1700000000000)) = [''3'', ''6'', ''2'', ''4'', ''5'', ''1'']
   \<and> sortAlerts ordinalCompare \<lparr>sortField = Timestamp, sortOrder = Desc\<rparr>
        (historyAlerts 1700000000000)
      = rev (sortAlerts ordinalCompare \<lparr>sortField = Timestamp, sortOrder = Asc\<rparr>
          (historyAlerts 1700000000000))
   \<and> map h_id (sortAlerts ordinalCompare \<lparr>sortField = Timestamp, sortOrder = Asc\<rparr>
        (historyAlerts 1700000000000)) = [''6'', ''5'', ''4'', ''3'', ''2'', ''1'']"
proof -
  have c: "consistent ordinalCompare"
    by (rule consistent_ordinalCompare)
  have r: "(0::nat) < length [historyAlerts 1700000000000]"
    by simp
  have d: "sorted_wrt
      (\<lambda>a b. compareAlerts ordinalCompare \<lparr>sortField = Timestamp, sortOrder = Desc\<rparr> a b \<noteq> 0)
      (historyAlerts 1700000000000)"
    by (simp add: compareAlerts_def historyAlerts_def)
  from c have c1: "sortField \<lparr>sortField = Type, sortOrder = Asc\<rparr> = Type \<longrightarrow> consistent ordinalCompare"
    by simp
  from c have c2: "sortField \<lparr>sortField = Timestamp, sortOrder = Desc\<rparr> = Type \<longrightarrow> consistent ordinalCompare"
    by simp
  note t1 = alert_sort_ordered [OF c1 r, of "historyAlerts 1700000000000"
      "hd (historyAlerts 1700000000000)" "hd (historyAlerts 1700000000000)"]
  note t2 = alert_sort_ordered [OF c2 r, of "historyAlerts 1700000000000"
      "hd (historyAlerts 1700000000000)" "hd (historyAlerts 1700000000000)"]
  from t1 have p1: "fst (sortedAlerts ordinalCompare \<lparr>sortField = Type, sortOrder = Asc\<rparr> 0
        [historyAlerts 1700000000000]) \<noteq> 0"
    by blast
  from t1 have p2: "snd (sortedAlerts ordinalCompare \<lparr>sortField = Type, sortOrder = Asc\<rparr> 0
        [historyAlerts 1700000000000]) ! 0 = [historyAlerts 1700000000000] ! 0"
    by blast
  from t1 have p3: "mset (sortAlerts ordinalCompare \<lparr>sortField = Type, sortOrder = Asc\<rparr>
        (historyAlerts 1700000000000)) = mset (historyAlerts 1700000000000)"
    by blast
  from t1 have p4: "sorted_wrt
      (\<lambda>a b. compareAlerts ordinalCompare \<lparr>sortField = Type, sortOrder = Asc\<rparr> a b \<le> 0)
      (sortAlerts ordinalCompare \<lparr>sortField = Type, sortOrder = Asc\<rparr>
        (historyAlerts 1700000000000))"
    by blast
  from t2 d have "sortAlerts ordinalCompare
        (\<lparr>sortField = Timestamp, sortOrder = Desc\<rparr>\<lparr>sortOrder := Desc\<rparr>)
        (historyAlerts 1700000000000)
      = rev (sortAlerts ordinalCompare
          (\<lparr>sortField = Timestamp, sortOrder = Desc\<rparr>\<lparr>sortOrder := Asc\<rparr>)
          (historyAlerts 1700000000000))"
    by blast
  then have p5: "sortAlerts ordinalCompare \<lparr>sortField = Timestamp, sortOrder = Desc\<rparr>
        (historyAlerts 1700000000000)
      = rev (sortAlerts ordinalCompare \<lparr>sortField = Timestamp, sortOrder = Asc\<rparr>
          (historyAlerts 1700000000000))"
    by simp
  from p2 have p2': "snd (sortedAlerts ordinalCompare \<lparr>sortField = Type, sortOrder = Asc\<rparr> 0
        [historyAlerts 1700000000000]) ! 0 = historyAlerts 1700000000000"
    by simp
  from c r d p1 p2' p3 p4 p5 history_by_type history_by_timestamp show ?thesis
    by blast
qed

text \<open>
  Claim C4. The sort is stable: for every record \<open>a\<close>, the records with the same
  key as \<open>a\<close> under the selected comparator appear in the output in the order they
  have in the input. Sorting is idempotent, and a list that is already in order is
  returned as it is. In the mock history sorted by severity, descending, the three
  High records keep the order of their ids 1, 2, 4.
\<close>

theorem alert_sort_stable:
  assumes lc: "sortField s = Type \<longrightarrow> consistent localeCompare"
  shows "filter (\<lambda>b. compareAlerts localeCompare s a b = 0) (sortAlerts localeCompare s records)
      = filter (\<lambda>b. compareAlerts localeCompare s a b = 0) records
    \<and> sortAlerts localeCompare s (sortAlerts localeCompare s records)
      = sortAlerts localeCompare s records
    \<and> (sorted_wrt (\<lambda>a b. compareAlerts localeCompare s a b \<le> 0) records \<longrightarrow>
        sortAlerts localeCompare s records = records)"
proof -
  from lc have c: "consistent (compareAlerts localeCompare s)"
    by (rule consistent_compareAlerts)
  then have "filter (\<lambda>b. compareAlerts localeCompare s a b = 0)
        (arraySort (compareAlerts localeCompare s) records)
      = filter (\<lambda>b. compareAlerts localeCompare s a b = 0) records"
    by (rule arraySort_stable)
  moreover from c have "arraySort (compareAlerts localeCompare s)
        (arraySort (compareAlerts localeCompare s) records)
      = arraySort (compareAlerts localeCompare s) records"
    by (rule arraySort_idem)
  ultimately show ?thesis
    by (simp add: sortAlerts_def arraySort_sorted_id)
qed

theorem alert_sort_stable_witness:
  "map h_id (historyAlerts 1700000000000) = [''1'', ''2'', ''3'', ''4'', ''5'', ''6'']
   \<and> map h_severity (historyAlerts 1700000000000) = [High, High, Medium, High, Low, Medium]
   \<and> map h_id (sortAlerts ordinalCompare \<lparr>sortField = Severity, sortOrder = Desc\<rparr>
        (historyAlerts 1700000000000)) = [''1'', ''2'', ''4'', ''3'', ''6'', ''5'']
   \<and> map h_id (filter (\<lambda>b. compareAlerts ordinalCompare \<lparr>sortField = Severity, sortOrder = Desc\<rparr>
          (hd (historyAlerts 1700000000000)) b = 0)
        (sortAlerts ordinalCompare \<lparr>sortField = Severity, sortOrder = Desc\<rparr>
          (historyAlerts 1700000000000))) = [''1'', ''2'', ''4'']
   \<and> sortAlerts ordinalCompare \<lparr>sortField = Severity, sortOrder = Desc\<rparr>
        (sortAlerts ordinalCompare \<lparr>sortField = Severity, sortOrder = Desc\<rparr>
          (historyAlerts 1700000000000))
      = sortAlerts ordinalCompare \<lparr>sortField = Severity, sortOrder = Desc\<rparr>
          (historyAlerts 1700000000000)
   \<and> sorted_wrt (\<lambda>a b. compareAlerts ordinalCompare \<lparr>sortField = Timestamp, sortOrder = Desc\<rparr> a b \<le> 0)
        (historyAlerts 1700000000000)
   \<and> sortAlerts ordinalCompare \<lparr>sortField = Timestamp, sortOrder = Desc\<rparr>
        (historyAlerts 1700000000000) = historyAlerts 1700000000000"
proof -
  have c1: "sortField \<lparr>sortField = Severity, sortOrder = Desc\<rparr> = Type \<longrightarrow> consistent ordinalCompare"
    by simp
  have c2: "sortField \<lparr>sortField = Timestamp, sortOrder = Desc\<rparr> = Type \<longrightarrow> consistent ordinalCompare"
    by simp
  have sorted: "sorted_wrt
      (\<lambda>a b. compareAlerts ordinalCompare \<lparr>sortField = Timestamp, sortOrder = Desc\<rparr> a b \<le> 0)
      (historyAlerts 1700000000000)"
    by (simp add: compareAlerts_def historyAlerts_def)
  have ids: "map h_id (historyAlerts 1700000000000) = [''1'', ''2'', ''3'', ''4'', ''5'', ''6'']"
    and sevs: "map h_severity (historyAlerts 1700000000000) = [High, High, Medium, High, Low, Medium]"
    by (simp_all add: historyAlerts_def)
  note t1 = alert_sort_stable [OF c1, of "hd (historyAlerts 1700000000000)" "historyAlerts 1700000000000"]
  note t2 = alert_sort_stable [OF c2, of "hd (historyAlerts 1700000000000)" "historyAlerts 1700000000000"]
  from t2 sorted have fixed: "sortAlerts ordinalCompare \<lparr>sortField = Timestamp, sortOrder = Desc\<rparr>
        (historyAlerts 1700000000000) = historyAlerts 1700000000000"
    by simp
  from t1 have st: "map h_id (filter (\<lambda>b. compareAlerts ordinalCompare \<lparr>sortField = Severity, sortOrder = Desc\<rparr>
          (hd (historyAlerts 1700000000000)) b = 0)
        (sortAlerts ordinalCompare \<lparr>sortField = Severity, sortOrder = Desc\<rparr>
          (historyAlerts 1700000000000))) = [''1'', ''2'', ''4'']"
    by (simp add: history_high_severity)
  from t1 have idem: "sortAlerts ordinalCompare \<lparr>sortField = Severity, sortOrder = Desc\<rparr>
        (sortAlerts ordinalCompare \<lparr>sortField = Severity, sortOrder = Desc\<rparr>
          (historyAlerts 1700000000000))
      = sortAlerts ordinalCompare \<lparr>sortField = Severity, sortOrder = Desc\<rparr>
          (historyAlerts 1700000000000)"
    by simp
  from ids sevs history_by_severity_desc st idem sorted fixed show ?thesis
    by simp
qed


section \<open>The fallback of the alerts list\<close>

text \<open>
  Claim C7, as stated: on any acquisition failure, a decode error included, a run of
  \<^verbatim>\<open>fetchAlerts\<close> stores the same fallback list, identical across repeated
  invocations. The code does not do this. The timestamps of the fallback records are
  read from the clock in the catch branch, so two polls that fail five seconds apart
  store different lists; and a response whose body does not decode throws nothing, so
  the body is stored as it arrived and the fallback is not used.
\<close>

theorem fallback_alerts_differ:
  "\<not> (alerts (fetchAlerts 1700000000000 1700000000000 1700000000000 1700000000000
                (Inl (AxiosError (Some ''ERR_NETWORK''))) initialAlertsState)
       = alerts (fetchAlerts 1700000005000 1700000005000 1700000005000 1700000005000
                (Inl (AxiosError (Some ''ERR_NETWORK''))) initialAlertsState))
   \<and> alerts (fetchAlerts 1700000000000 1700000000000 1700000000000 1700000000000
                (Inr (OtherBody ''<html></html>'')) initialAlertsState)
       = OtherBody ''<html></html>''
   \<and> \<not> (alerts (fetchAlerts 1700000000000 1700000000000 1700000000000 1700000000000
                (Inr (OtherBody ''<html></html>'')) initialAlertsState)
       = AlertList (fallbackAlerts 1700000000000 1700000000000 1700000000000 1700000000000))"
  by (simp add: fetchAlerts_def fallbackAlerts_def initialAlertsState_def)

text \<open>
  Claim C7, amended: whenever the request throws (network error, timeout or anything
  else), the run of \<^verbatim>\<open>fetchAlerts\<close> ends in an ordinary state, loading off
  and no error kept, whose list is the fallback: 4 records with the ids "1", "2", "3",
  "4" in that order and the types Smoke Detected, Electrical Fault, Temperature Spike,
  Fire Detected. Two fallback lists agree in every field but the timestamp, which each
  record takes from the clock in the catch branch (120000, 300000, 600000 and 900000
  ms before its own reading), and the result does not depend on what was thrown.
\<close>

theorem fallback_alerts_fixed_up_to_time:
  "alerts (fetchAlerts t1 t2 t3 t4 (Inl err) s) = AlertList (fallbackAlerts t1 t2 t3 t4)
   \<and> alertsLoading (fetchAlerts t1 t2 t3 t4 (Inl err) s) = False
   \<and> length (fallbackAlerts t1 t2 t3 t4) = 4
   \<and> map a_id (fallbackAlerts t1 t2 t3 t4) = [''1'', ''2'', ''3'', ''4'']
   \<and> map a_type (fallbackAlerts t1 t2 t3 t4) =
       [''Smoke Detected'', ''Electrical Fault'', ''Temperature Spike'', ''Fire Detected'']
   \<and> map a_timestamp (fallbackAlerts t1 t2 t3 t4) =
       [t1 - 120000, t2 - 300000, t3 - 600000, t4 - 900000]
   \<and> map (\<lambda>a. a\<lparr>a_timestamp := 0\<rparr>) (fallbackAlerts t1 t2 t3 t4)
       = map (\<lambda>a. a\<lparr>a_timestamp := 0\<rparr>) (fallbackAlerts u1 u2 u3 u4)
   \<and> fetchAlerts t1 t2 t3 t4 (Inl err) s = fetchAlerts t1 t2 t3 t4 (Inl err') s"
  by (simp add: fetchAlerts_def fallbackAlerts_def)


section \<open>The fallback of the dashboard\<close>

text \<open>
  Claim C8. When the request of \<^verbatim>\<open>fetchData\<close> fails, the snapshot becomes
  the fallback with risk level "High", location "Module A-12", confidence 92, type
  "Smoke Detected" and the current time as timestamp, and loading is switched off;
  every field the view reads is there: the risk level gets the red class and the
  confidence block is rendered with 92.
\<close>

theorem dashboard_fallback_snapshot:
  "hazard (fetchData now (Inl err) s) = Some (fallbackHazard now)
   \<and> loading (fetchData now (Inl err) s) = False
   \<and> risk_level (fallbackHazard now) = ''High''
   \<and> hz_location (fallbackHazard now) = ''Module A-12''
   \<and> confidence (fallbackHazard now) = Some 92
   \<and> hz_type (fallbackHazard now) = ''Smoke Detected''
   \<and> hz_timestamp (fallbackHazard now) = now
   \<and> getRiskColor (risk_level (fallbackHazard now)) = ''border-red-500 bg-red-500/10 text-red-400''
   \<and> renderConfidence (fallbackHazard now) = [ElementNode (ConfidenceLevel 92)]"
proof -
  have "getRiskColor ''High'' = ''border-red-500 bg-red-500/10 text-red-400''"
    by code_simp
  then show ?thesis
    by (simp add: fetchData_def Let_def fallbackHazard_def renderConfidence_def
        confidenceGuard_def)
qed


section \<open>The error state of the dashboard\<close>

lemma fetchData_error: "error s = None \<Longrightarrow> error (fetchData now response s) = None"
  by (cases response) (simp_all add: fetchData_def Let_def)

lemma pollDashboard_error: "error s = None \<Longrightarrow> error (pollDashboard completions s) = None"
proof (induction completions arbitrary: s)
  case Nil
  then show ?case by simp
next
  case (Cons c cs)
  obtain now response where c: "c = (now, response)"
    by (cases c)
  from Cons.prems have "error (fetchData now response s) = None"
    by (rule fetchData_error)
  then have "error (pollDashboard cs (fetchData now response s)) = None"
    by (rule Cons.IH)
  with c show ?case by simp
qed

text \<open>
  Claim C9. The error state of the dashboard is always null: it is null initially,
  it is null after any sequence of completed runs of \<^verbatim>\<open>fetchData\<close>, and a
  single run keeps it null whatever the outcome, also in the catch branch for a
  failure other than \<^verbatim>\<open>ERR_NETWORK\<close>, where no setter of the error runs.
\<close>

theorem dashboard_error_always_null:
  "error initialDashboardState = None
   \<and> error (pollDashboard completions initialDashboardState) = None
   \<and> (error s = None \<longrightarrow> error (fetchData now response s) = None)"
  using pollDashboard_error [of initialDashboardState completions]
    fetchData_error [of s now response]
  by (simp add: initialDashboardState_def)

theorem dashboard_error_always_null_witness:
  "error initialDashboardState = None
   \<and> error (fetchData 1700000000000 (Inl (AxiosError (Some ''ECONNABORTED'')))
        initialDashboardState) = None
   \<and> error (fetchData 1700000000000 (Inl OtherError) initialDashboardState) = None
   \<and> error (pollDashboard
        [(1700000000000, Inl (AxiosError (Some ''ERR_NETWORK''))),
         (1700000005000, Inl (AxiosError (Some ''ECONNABORTED''))),
         (1700000010000, Inr (fallbackHazard 0)),
         (1700000015000, Inl OtherError)] initialDashboardState) = None"
  using dashboard_error_always_null
      [of "[(1700000000000, Inl (AxiosError (Some ''ERR_NETWORK''))),
         (1700000005000, Inl (AxiosError (Some ''ECONNABORTED''))),
         (1700000010000, Inr (fallbackHazard 0)),
         (1700000015000, Inl OtherError)]"
        initialDashboardState 1700000000000 "Inl (AxiosError (Some ''ECONNABORTED''))"]
    dashboard_error_always_null [of "[]" initialDashboardState 1700000000000 "Inl OtherError"]
  by blast


section \<open>The confidence block\<close>

text \<open>
  The bar and the percentage of value \<open>c\<close> are rendered exactly when the confidence
  of the snapshot is present, equal to \<open>c\<close> and nonzero.
\<close>

lemma confidence_block_iff:
  "(ElementNode (ConfidenceLevel c) \<in> set (renderConfidence h))
     = (confidence h = Some c \<and> c \<noteq> 0)"
  by (auto simp add: renderConfidence_def confidenceGuard_def split: option.splits)

text \<open>
  Claim C10. The claim: the confidence block is rendered only for a confidence that
  is present and nonzero, and a snapshot with confidence 0 is displayed like a
  snapshot without confidence. The guard \<^verbatim>\<open>hazard.confidence && (...)\<close> is
  written to render the block or nothing, as the guards \<^verbatim>\<open>hazard && (...)\<close>
  and \<^verbatim>\<open>!hazard && (...)\<close> of the same view do, but for confidence 0 its value
  is the number 0, and a number is rendered as text. The code at a snapshot with
  confidence 0: the text 0 appears in the card, where the snapshot without confidence
  shows nothing; in neither case is the block rendered.
\<close>

theorem confidence_zero_renders_text:
  "renderConfidence ((fallbackHazard 1700000000000)\<lparr>confidence := Some 0\<rparr>) = [TextOfNumber 0]
   \<and> renderConfidence ((fallbackHazard 1700000000000)\<lparr>confidence := None\<rparr>) = []
   \<and> renderConfidence ((fallbackHazard 1700000000000)\<lparr>confidence := Some 0\<rparr>)
       \<noteq> renderConfidence ((fallbackHazard 1700000000000)\<lparr>confidence := None\<rparr>)"
  by (simp add: renderConfidence_def confidenceGuard_def)

end
